theory Spec2Isabelle
  imports Main "HOL-Library.Sublist" "HOL-Library.Multiset"
begin

section \<open>JavaScript values used by the controllers\<close>

text \<open>
  A thrown value is either an \<open>Error\<close> object (name, message, stack) or some other value.
  The handlers only ever test \<open>error instanceof Error\<close> and read \<open>error.message\<close>.
\<close>

datatype thrown = ErrorObject (errName: string) (errMessage: string) (errStack: string) | NonError

text \<open>\<open>error instanceof Error ? error.message : fallback\<close>\<close>

definition errorText :: "thrown \<Rightarrow> string \<Rightarrow> string" where
  "errorText e fallback = (case e of ErrorObject n m s \<Rightarrow> m | NonError \<Rightarrow> fallback)"

text \<open>
  Parsed JSON. Numbers are restricted to integers; an object is the list of its own
  properties in insertion order.
\<close>

datatype json = JNull | JBool bool | JNum int | JStr string | JArr "json list"
  | JObj "(string \<times> json) list"

text \<open>
  Property read \<open>v.k\<close> on a value that came out of \<open>JSON.parse\<close>, for a key that no
  prototype defines: reading from \<open>null\<close> throws a TypeError, an object yields its own
  property or \<open>undefined\<close> (\<open>None\<close>), every other value yields \<open>undefined\<close>.
\<close>

definition getProp :: "json \<Rightarrow> string \<Rightarrow> thrown + json option" where
  "getProp v k =
     (case v of
        JNull \<Rightarrow> Inl (ErrorObject ''TypeError''
                   (''Cannot read properties of null (reading '' @ [CHR 0x27] @ k @ [CHR 0x27] @ '')'') [])
      | JObj kvs \<Rightarrow> Inr (map_of kvs k)
      | _ \<Rightarrow> Inr None)"

subsection \<open>Strings\<close>

text \<open>
  Strings are lists of code units below 256. \<open>String.prototype.trim\<close> removes white space
  and line terminators at both ends: TAB, LF, VT, FF, CR, SPACE and NBSP in this range.
\<close>

definition isWhiteSpace :: "char \<Rightarrow> bool" where
  "isWhiteSpace c = (of_char c \<in> {9, 10, 11, 12, 13, 32, 160 :: nat})"

definition trim :: "string \<Rightarrow> string" where
  "trim s = rev (dropWhile isWhiteSpace (rev (dropWhile isWhiteSpace s)))"

text \<open>
  \<open>s.replace(pat, rep)\<close> with a string pattern: only the first occurrence is replaced.
\<close>

fun replaceFirst :: "string \<Rightarrow> string \<Rightarrow> string \<Rightarrow> string" where
  "replaceFirst pat rep [] = (if pat = [] then rep else [])"
| "replaceFirst pat rep (c # cs) =
     (if prefix pat (c # cs) then rep @ drop (length pat) (c # cs)
      else c # replaceFirst pat rep cs)"

text \<open>
  \<open>s.replace(/```json\n|\n```/g, "")\<close>: scanning from the left, at each position the first
  alternative is tried before the second, a match is deleted and the scan resumes behind it.
\<close>

function replaceFences :: "string \<Rightarrow> string" where
  "replaceFences [] = []"
| "replaceFences (c # cs) =
     (if prefix ''```json\<newline>'' (c # cs) then replaceFences (drop 8 (c # cs))
      else if prefix ''\<newline>```'' (c # cs) then replaceFences (drop 4 (c # cs))
      else c # replaceFences cs)"
  by pat_completeness auto
termination
  by (relation "measure length") auto


section \<open>Data model\<close>

text \<open>
  A Mongo \<open>ObjectId\<close> in its canonical textual form; \<open>toString\<close> reads it back.
\<close>

datatype objectId = ObjectId string

fun toString :: "objectId \<Rightarrow> string" where
  "toString (ObjectId h) = h"

text \<open>
  Modelled from the spec: the account schema (\<open>models/User\<close>, \<open>IUser\<close>) is not among the
  sources. An account has an identifier, an email and a display name; the middleware reads
  them as \<open>_id\<close>, \<open>email\<close> and \<open>name\<close>.
\<close>

record user =
  u_id :: objectId
  email :: string
  name :: string

text \<open>\<open>req.user\<close> as the middleware declares it: \<open>id\<close>, \<open>_id\<close>, \<open>email\<close>, \<open>name\<close>.\<close>

record reqUser =
  ru_id :: string
  ru_oid :: objectId
  ru_email :: string
  ru_name :: string

datatype role = RoleUser | RoleAssistant

record progress =
  emotionalState :: "json option"
  riskLevel :: "json option"

record metadata =
  m_analysis :: json
  m_progress :: progress

text \<open>
  Modelled from the spec: the session schema (\<open>models/ChatSession\<close>, \<open>IChatSession\<close>) is not
  among the sources. A turn has a role, a content text, a timestamp and optional metadata
  (the analysis and a progress summary of emotional state and risk level); a session has
  its public identifier, the owning account, the creation time, a status and the ordered
  turns. The field names are those the controller reads and writes; timestamps are
  milliseconds since the epoch.
\<close>

record turn =
  role :: role
  content :: string
  timestamp :: int
  metadata :: "metadata option"

record session =
  sessionId :: string
  userId :: objectId
  startTime :: int
  status :: string
  messages :: "turn list"

text \<open>The element type of the list that \<open>getAllUserSessions\<close> sends.\<close>

record summary =
  s_sessionId :: string
  createdAt :: int
  updatedAt :: int
  s_messages :: "turn list"
  s_status :: string

text \<open>
  A response: the status code and the JSON body. \<open>Fail m e\<close> is an object with an optional
  \<open>message\<close> and an optional \<open>error\<close> field; the other constructors are the success bodies
  (\<open>Reply\<close>: response, message, analysis, progress; \<open>Created\<close>: message, sessionId).
\<close>

datatype body =
    Fail (fmessage: "string option") (ferror: "string option")
  | Reply string string json progress
  | Created string string
  | SessionDoc session
  | Turns "turn list"
  | Summaries "summary list"

record response =
  statusCode :: nat
  body :: body

definition json_status :: "nat \<Rightarrow> body \<Rightarrow> response" where
  "json_status c b = \<lparr>statusCode = c, body = b\<rparr>"

section \<open>Authentication middleware\<close>

record jwtPayload =
  p_userId :: "string option"
  p_iat :: "int option"
  p_exp :: "int option"

text \<open>
  What the middleware takes from outside: the environment variable, \<open>jwt.verify\<close>,
  \<open>User.findById\<close> and the text that \<open>Date.prototype.toISOString\<close> prints.
\<close>

record authEnv =
  env_JWT_SECRET :: "string option"
  jwt_verify :: "string \<Rightarrow> string \<Rightarrow> thrown + jwtPayload"
  User_findById :: "string option \<Rightarrow> thrown + user option"
  isoText :: "int \<Rightarrow> string"

text \<open>\<open>process.env.JWT_SECRET || "7c2e..."\<close>: an empty variable is falsy.\<close>

definition fallbackSecret :: string where
  "fallbackSecret =
     ''7c2e1a3b9c5df7a08e53b947db102e8a04ccdf36b5a89f9983d91c5424f7c9c9bcb1fa9c4c37e721c2c2c4f9b9f83b67''"

definition JWT_SECRET :: "authEnv \<Rightarrow> string" where
  "JWT_SECRET env =
     (case env_JWT_SECRET env of
        None \<Rightarrow> fallbackSecret
      | Some s \<Rightarrow> if s = [] then fallbackSecret else s)"

text \<open>
  \<open>new Date(n * 1000).toISOString()\<close>: a missing claim makes the product \<open>NaN\<close>, and an
  invalid date or one beyond 8.64e15 ms throws a RangeError.
\<close>

definition toISOString :: "authEnv \<Rightarrow> int option \<Rightarrow> thrown + string" where
  "toISOString env n =
     (case n of
        None \<Rightarrow> Inl (ErrorObject ''RangeError'' ''Invalid time value'' [])
      | Some v \<Rightarrow>
          if \<bar>v * 1000\<bar> \<le> 8640000000000000 then Inr (isoText env (v * 1000))
          else Inl (ErrorObject ''RangeError'' ''Invalid time value'' []))"

definition showBool :: "bool \<Rightarrow> string" where
  "showBool b = (if b then ''true'' else ''false'')"

definition showOpt :: "string option \<Rightarrow> string" where
  "showOpt s = (case s of None \<Rightarrow> ''undefined'' | Some t \<Rightarrow> t)"

text \<open>The \<open>catch (jwtError)\<close> block: two console lines and the 401 response.\<close>

definition jwtFailed :: "thrown \<Rightarrow> string list \<Rightarrow> (response + reqUser) \<times> string list" where
  "jwtFailed jwtError console =
     (Inl (json_status 401 (Fail (Some ''Invalid authentication token'')
             (Some (errorText jwtError ''JWT verification failed'')))),
      console @
        [''JWT verification failed:'',
         ''- Error name: '' @ (case jwtError of ErrorObject n m s \<Rightarrow> n | NonError \<Rightarrow> ''Unknown''),
         ''- Error message: '' @ errorText jwtError ''Unknown error''])"

text \<open>\<open>authHeader?.replace("Bearer ", "")\<close>: \<open>undefined\<close> for a missing header.\<close>

definition tokenOf :: "string option \<Rightarrow> string option" where
  "tokenOf authHeader = map_option (replaceFirst ''Bearer '' []) authHeader"

text \<open>
  \<open>auth\<close>: the result is either the response the middleware sends itself or the
  \<open>req.user\<close> it hands to \<open>next()\<close>, together with the console lines it wrote (the
  pictographs in front of the labels are left out).
\<close>

definition auth :: "authEnv \<Rightarrow> string option \<Rightarrow> (response + reqUser) \<times> string list" where
  "auth env authHeader =
     (let token = tokenOf authHeader;
          console0 =
            [''Auth Middleware:'',
             ''- Authorization header present: '' @ showBool (authHeader \<noteq> None \<and> authHeader \<noteq> Some []),
             ''- Token extracted: '' @ (if token \<noteq> None \<and> token \<noteq> Some [] then ''Yes'' else ''No''),
             ''- JWT_SECRET (first 20 chars): '' @ take 20 (JWT_SECRET env) @ ''...'']
      in case token of
           None \<Rightarrow>
             (Inl (json_status 401 (Fail (Some ''Authentication required'') (Some ''No token provided''))),
              console0 @ [''No token provided''])
         | Some tok \<Rightarrow>
             if tok = [] then
               (Inl (json_status 401 (Fail (Some ''Authentication required'') (Some ''No token provided''))),
                console0 @ [''No token provided''])
             else
               (let console1 = console0 @ [''- Token to verify (first 50 chars): '' @ take 50 tok @ ''...'']
                in case jwt_verify env tok (JWT_SECRET env) of
                     Inl jwtError \<Rightarrow> jwtFailed jwtError console1
                   | Inr decoded \<Rightarrow>
                       (let console2 = console1 @
                              [''Token decoded successfully'',
                               ''- userId from token: '' @ showOpt (p_userId decoded)]
                        in case toISOString env (p_iat decoded) of
                             Inl jwtError \<Rightarrow> jwtFailed jwtError console2
                           | Inr issued \<Rightarrow>
                               (let console3 = console2 @ [''- Token issued at: '' @ issued]
                                in case toISOString env (p_exp decoded) of
                                     Inl jwtError \<Rightarrow> jwtFailed jwtError console3
                                   | Inr expires \<Rightarrow>
                                       (let console4 = console3 @ [''- Token expires at: '' @ expires]
                                        in case User_findById env (p_userId decoded) of
                                             Inl error \<Rightarrow>
                                               (Inl (json_status 401 (Fail (Some ''Authentication failed'')
                                                       (Some (errorText error ''Unknown error'')))),
                                                console4 @ [''Auth middleware error: '' @
                                                   (case error of ErrorObject n m s \<Rightarrow> s | NonError \<Rightarrow> [])])
                                           | Inr None \<Rightarrow>
                                               (Inl (json_status 401 (Fail (Some ''User not found'')
                                                       (Some ''User account no longer exists''))),
                                                console4 @ [''User not found for ID: '' @ showOpt (p_userId decoded)])
                                           | Inr (Some user) \<Rightarrow>
                                               (Inr \<lparr>ru_id = toString (u_id user), ru_oid = u_id user,
                                                     ru_email = email user, ru_name = name user\<rparr>,
                                                console4 @ [''User authenticated successfully: '' @ email user]))))))"

section \<open>Chat controller\<close>

text \<open>
  The event published to the relay: \<open>name\<close> and the fields of \<open>data\<close>.
\<close>

record inngestEvent =
  ev_name :: string
  ev_message :: string
  ev_history :: "turn list"
  ev_memory :: json
  ev_goals :: json
  ev_systemPrompt :: string

text \<open>
  What a handler does to the outside, in the order it does it: a publish attempt on the
  relay, a request to the generation model (with its prompt), a \<open>session.save()\<close> attempt.
\<close>

datatype effect = Publish inngestEvent | Generate string | Save session

text \<open>
  The collaborators of the controller, which live outside the repository: the
  \<open>Types.ObjectId\<close> constructor (it throws on a malformed string), a fault of a database
  query, \<open>inngest.send\<close>, \<open>generateContent(...).response.text()\<close>, \<open>JSON.parse\<close>,
  \<open>JSON.stringify\<close>, the outcome of \<open>session.save()\<close>, and the two \<open>new Date()\<close> readings
  of \<open>sendMessage\<close>. Calls of the logger are not part of the model.
\<close>

record chatEnv =
  Types_ObjectId :: "string \<Rightarrow> thrown + objectId"
  queryFault :: "thrown option"
  inngest_send :: "inngestEvent \<Rightarrow> thrown option"
  generateContent :: "string \<Rightarrow> thrown + string"
  JSON_parse :: "string \<Rightarrow> thrown + json"
  JSON_stringify :: "json \<Rightarrow> string"
  session_save :: "session \<Rightarrow> thrown option"
  date1 :: int
  date2 :: int

text \<open>
  \<open>req.params.sessionId\<close>, \<open>req.body.message\<close> (taken to be a string) and \<open>req.user\<close>.
\<close>

record request =
  params_sessionId :: string
  body_message :: string
  req_user :: "reqUser option"

text \<open>
  \<open>ChatSession.findOne({ sessionId })\<close> over the collection, a list of documents: the
  first document with that public identifier, together with its position, which stands for
  the identity of the document when it is saved.
\<close>

fun findOne :: "string \<Rightarrow> session list \<Rightarrow> (nat \<times> session) option" where
  "findOne sid [] = None"
| "findOne sid (s # ss) =
     (if sessionId s = sid then Some (0, s)
      else map_option (\<lambda>(i, t). (Suc i, t)) (findOne sid ss))"

definition ChatSession_findOne ::
  "chatEnv \<Rightarrow> session list \<Rightarrow> string \<Rightarrow> thrown + (nat \<times> session) option" where
  "ChatSession_findOne env store sid =
     (case queryFault env of Some error \<Rightarrow> Inl error | None \<Rightarrow> Inr (findOne sid store))"

definition memory :: json where
  "memory = JObj
     [(''userProfile'', JObj [(''emotionalState'', JArr []), (''riskLevel'', JNum 0),
                               (''preferences'', JObj [])]),
      (''sessionContext'', JObj [(''conversationThemes'', JArr []),
                                  (''currentTechnique'', JNull)])]"

definition systemPrompt :: string where
  "systemPrompt =
     ''You are an AI therapist assistant. Your role is to:\<newline>'' @
     ''        1. Provide empathetic and supportive responses\<newline>'' @
     ''        2. Use evidence-based therapeutic techniques\<newline>'' @
     ''        3. Maintain professional boundaries\<newline>'' @
     ''        4. Monitor for risk factors\<newline>'' @
     ''        5. Guide users toward their therapeutic goals''"

definition mkEvent :: "string \<Rightarrow> turn list \<Rightarrow> inngestEvent" where
  "mkEvent message history =
     \<lparr>ev_name = ''therapy/session.message'', ev_message = message, ev_history = history,
      ev_memory = memory, ev_goals = JArr [], ev_systemPrompt = systemPrompt\<rparr>"

definition analysisPrompt :: "chatEnv \<Rightarrow> string \<Rightarrow> inngestEvent \<Rightarrow> string" where
  \<open>analysisPrompt env message event =
     ''Analyze this therapy message and provide insights. Return ONLY a valid JSON object with no markdown formatting or additional text.\<newline>'' @
     ''    Message: '' @ message @ ''\<newline>'' @
     ''    Context: '' @
       JSON_stringify env (JObj [(''memory'', ev_memory event), (''goals'', ev_goals event)]) @
       ''\<newline>'' @
     ''    \<newline>'' @
     ''    Required JSON structure:\<newline>'' @
     ''    {\<newline>'' @
     ''      "emotionalState": "string",\<newline>'' @
     ''      "themes": ["string"],\<newline>'' @
     ''      "riskLevel": number,\<newline>'' @
     ''      "recommendedApproach": "string",\<newline>'' @
     ''      "progressIndicators": ["string"]\<newline>'' @
     ''    }''\<close>

definition responsePrompt :: "chatEnv \<Rightarrow> string \<Rightarrow> json \<Rightarrow> inngestEvent \<Rightarrow> string" where
  "responsePrompt env message analysis event =
     ev_systemPrompt event @ ''\<newline>'' @
     ''    \<newline>'' @
     ''    Based on the following context, generate a therapeutic response:\<newline>'' @
     ''    Message: '' @ message @ ''\<newline>'' @
     ''    Analysis: '' @ JSON_stringify env analysis @ ''\<newline>'' @
     ''    Memory: '' @ JSON_stringify env (ev_memory event) @ ''\<newline>'' @
     ''    Goals: '' @ JSON_stringify env (ev_goals event) @ ''\<newline>'' @
     ''    \<newline>'' @
     ''    Provide a response that:\<newline>'' @
     ''    1. Addresses the immediate emotional needs\<newline>'' @
     ''    2. Uses appropriate therapeutic techniques\<newline>'' @
     ''    3. Shows empathy and understanding\<newline>'' @
     ''    4. Maintains professional boundaries\<newline>'' @
     ''    5. Considers safety and well-being''"

text \<open>The \<open>catch\<close> block of \<open>sendMessage\<close>.\<close>

definition caught :: "thrown \<Rightarrow> response" where
  "caught error =
     json_status 500 (Fail (Some ''Error processing message'') (Some (errorText error ''Unknown error'')))"

definition userTurn :: "chatEnv \<Rightarrow> string \<Rightarrow> turn" where
  "userTurn env message =
     \<lparr>role = RoleUser, content = message, timestamp = date1 env, metadata = None\<rparr>"

definition assistantTurn :: "chatEnv \<Rightarrow> string \<Rightarrow> json \<Rightarrow> progress \<Rightarrow> turn" where
  "assistantTurn env response analysis pr =
     \<lparr>role = RoleAssistant, content = response, timestamp = date2 env,
      metadata = Some \<lparr>m_analysis = analysis, m_progress = pr\<rparr>\<rparr>"

text \<open>
  \<open>sendMessage\<close>: the response, the collection afterwards and the effects in order. The
  in-memory document is only written to the collection by a \<open>save\<close> that succeeds.
\<close>

definition sendMessage ::
  "chatEnv \<Rightarrow> request \<Rightarrow> session list \<Rightarrow> response \<times> session list \<times> effect list" where
  "sendMessage env req store =
     (case req_user req of
        None \<Rightarrow> (json_status 401 (Fail (Some ''Unauthorized - User not authenticated'') None), store, [])
      | Some u \<Rightarrow>
          if ru_id u = [] then
            (json_status 401 (Fail (Some ''Unauthorized - User not authenticated'') None), store, [])
          else
            (case Types_ObjectId env (ru_id u) of
               Inl error \<Rightarrow> (caught error, store, [])
             | Inr caller \<Rightarrow>
                 (case ChatSession_findOne env store (params_sessionId req) of
                    Inl error \<Rightarrow> (caught error, store, [])
                  | Inr None \<Rightarrow> (json_status 404 (Fail (Some ''Session not found'') None), store, [])
                  | Inr (Some (i, session)) \<Rightarrow>
                      if toString (userId session) \<noteq> toString caller then
                        (json_status 403 (Fail (Some ''Unauthorized'') None), store, [])
                      else
                        (let message = body_message req;
                             event = mkEvent message (messages session);
                             t1 = [Publish event]
                         in case inngest_send env event of
                              Some error \<Rightarrow> (caught error, store, t1)
                            | None \<Rightarrow>
                                (let t2 = t1 @ [Generate (analysisPrompt env message event)]
                                 in case generateContent env (analysisPrompt env message event) of
                                      Inl error \<Rightarrow> (caught error, store, t2)
                                    | Inr text1 \<Rightarrow>
                                        (let analysisText = trim text1;
                                             cleanAnalysisText = trim (replaceFences analysisText)
                                         in case JSON_parse env cleanAnalysisText of
                                              Inl error \<Rightarrow> (caught error, store, t2)
                                            | Inr analysis \<Rightarrow>
                                                (let t3 = t2 @ [Generate (responsePrompt env message analysis event)]
                                                 in case generateContent env (responsePrompt env message analysis event) of
                                                      Inl error \<Rightarrow> (caught error, store, t3)
                                                    | Inr text2 \<Rightarrow>
                                                        (let response = trim text2;
                                                             session1 = session\<lparr>messages := messages session @ [userTurn env message]\<rparr>
                                                         in case getProp analysis ''emotionalState'' of
                                                              Inl error \<Rightarrow> (caught error, store, t3)
                                                            | Inr es \<Rightarrow>
                                                                (case getProp analysis ''riskLevel'' of
                                                                   Inl error \<Rightarrow> (caught error, store, t3)
                                                                 | Inr rl \<Rightarrow>
                                                                     (let pr = \<lparr>emotionalState = es, riskLevel = rl\<rparr>;
                                                                          session2 = session1\<lparr>messages := messages session1 @ [assistantTurn env response analysis pr]\<rparr>;
                                                                          t4 = t3 @ [Save session2]
                                                                      in case session_save env session2 of
                                                                           Some error \<Rightarrow> (caught error, store, t4)
                                                                         | None \<Rightarrow>
                                                                             (json_status 200 (Reply response response analysis pr),
                                                                              store[i := session2], t4)))))))))))"

text \<open>
  \<open>createChatSession\<close>, with \<open>User.findById\<close> on the constructed identifier and the value
  of \<open>uuidv4()\<close> as further collaborators; \<open>date1\<close> is its \<open>new Date()\<close>. A \<open>save\<close> that
  succeeds adds the new document to the collection.
\<close>

definition createChatSession ::
  "chatEnv \<Rightarrow> (objectId \<Rightarrow> thrown + user option) \<Rightarrow> string \<Rightarrow> request \<Rightarrow> session list \<Rightarrow>
   response \<times> session list \<times> effect list" where
  "createChatSession env findUser uuid req store =
     (case req_user req of
        None \<Rightarrow> (json_status 401 (Fail (Some ''Unauthorized - User not authenticated'') None), store, [])
      | Some u \<Rightarrow>
          if ru_id u = [] then
            (json_status 401 (Fail (Some ''Unauthorized - User not authenticated'') None), store, [])
          else
            (case Types_ObjectId env (ru_id u) of
               Inl error \<Rightarrow>
                 (json_status 500 (Fail (Some ''Error creating chat session'')
                                        (Some (errorText error ''Unknown error''))), store, [])
             | Inr owner \<Rightarrow>
                 (case findUser owner of
                    Inl error \<Rightarrow>
                      (json_status 500 (Fail (Some ''Error creating chat session'')
                                             (Some (errorText error ''Unknown error''))), store, [])
                  | Inr None \<Rightarrow> (json_status 404 (Fail (Some ''User not found'') None), store, [])
                  | Inr (Some account) \<Rightarrow>
                      (let session = \<lparr>sessionId = uuid, userId = owner, startTime = date1 env,
                                      status = ''active'', messages = []\<rparr>
                       in case session_save env session of
                            Some error \<Rightarrow>
                              (json_status 500 (Fail (Some ''Error creating chat session'')
                                                     (Some (errorText error ''Unknown error''))),
                               store, [Save session])
                          | None \<Rightarrow>
                              (json_status 201 (Created ''Chat session created successfully''
                                                        (sessionId session)),
                               store @ [session], [Save session])))))"

text \<open>\<open>getChatSession\<close>: no use of \<open>req.user\<close>; the document itself is the body.\<close>

definition getChatSession :: "chatEnv \<Rightarrow> request \<Rightarrow> session list \<Rightarrow> response" where
  "getChatSession env req store =
     (case ChatSession_findOne env store (params_sessionId req) of
        Inl error \<Rightarrow> json_status 500 (Fail None (Some ''Failed to get chat session''))
      | Inr None \<Rightarrow> json_status 404 (Fail None (Some ''Chat session not found''))
      | Inr (Some (i, chatSession)) \<Rightarrow> json_status 200 (SessionDoc chatSession))"

definition getChatHistory :: "chatEnv \<Rightarrow> request \<Rightarrow> session list \<Rightarrow> response" where
  "getChatHistory env req store =
     (case req_user req of
        None \<Rightarrow> json_status 401 (Fail (Some ''Unauthorized - User not authenticated'') None)
      | Some u \<Rightarrow>
          if ru_id u = [] then
            json_status 401 (Fail (Some ''Unauthorized - User not authenticated'') None)
          else
            (case Types_ObjectId env (ru_id u) of
               Inl error \<Rightarrow> json_status 500 (Fail (Some ''Error fetching chat history'') None)
             | Inr caller \<Rightarrow>
                 (case ChatSession_findOne env store (params_sessionId req) of
                    Inl error \<Rightarrow> json_status 500 (Fail (Some ''Error fetching chat history'') None)
                  | Inr None \<Rightarrow> json_status 404 (Fail (Some ''Session not found'') None)
                  | Inr (Some (i, session)) \<Rightarrow>
                      if toString (userId session) \<noteq> toString caller then
                        json_status 403 (Fail (Some ''Unauthorized'') None)
                      else json_status 200 (Turns (messages session)))))"

text \<open>
  \<open>ChatSession.find({ userId }).sort({ startTime: -1 })\<close>: the string is cast to an
  \<open>ObjectId\<close> (a malformed one throws), the documents of that owner are kept and ordered by
  \<open>startTime\<close>, latest first.
\<close>

definition ChatSession_find_sorted ::
  "chatEnv \<Rightarrow> session list \<Rightarrow> string \<Rightarrow> thrown + session list" where
  "ChatSession_find_sorted env store uid =
     (case Types_ObjectId env uid of
        Inl error \<Rightarrow> Inl error
      | Inr owner \<Rightarrow>
          (case queryFault env of
             Some error \<Rightarrow> Inl error
           | None \<Rightarrow> Inr (sort_key (\<lambda>s. - startTime s) (filter (\<lambda>s. userId s = owner) store))))"

definition formatSession :: "session \<Rightarrow> summary" where
  "formatSession session =
     \<lparr>s_sessionId = sessionId session,
      createdAt = startTime session,
      updatedAt = (if length (messages session) > 0
                   then timestamp (messages session ! (length (messages session) - 1))
                   else startTime session),
      s_messages = messages session,
      s_status = status session\<rparr>"

definition getAllUserSessions :: "chatEnv \<Rightarrow> request \<Rightarrow> session list \<Rightarrow> response" where
  "getAllUserSessions env req store =
     (case req_user req of
        None \<Rightarrow> json_status 401 (Fail (Some ''User ID not found in request'') (Some ''User not authenticated''))
      | Some u \<Rightarrow>
          if ru_id u = [] then
            json_status 401 (Fail (Some ''User ID not found in request'') (Some ''User not authenticated''))
          else
            (case ChatSession_find_sorted env store (ru_id u) of
               Inl error \<Rightarrow>
                 json_status 500 (Fail (Some (errorText error ''Unknown error''))
                                       (Some ''Failed to fetch chat sessions''))
             | Inr sessions \<Rightarrow> json_status 200 (Summaries (map formatSession sessions))))"

section \<open>Routes\<close>

text \<open>
  \<open>router.use(auth)\<close> in front of every chat route: the handler runs only when the
  middleware called \<open>next()\<close>, with the \<open>req.user\<close> it set.
\<close>

definition route ::
  "(chatEnv \<Rightarrow> request \<Rightarrow> session list \<Rightarrow> 'r) \<Rightarrow> (response \<Rightarrow> 'r) \<Rightarrow>
   authEnv \<Rightarrow> chatEnv \<Rightarrow> string option \<Rightarrow> string \<Rightarrow> string \<Rightarrow> session list \<Rightarrow> 'r" where
  "route handler refuse aenv env authHeader sid message store =
     (case fst (auth aenv authHeader) of
        Inl res \<Rightarrow> refuse res
      | Inr u \<Rightarrow> handler env \<lparr>params_sessionId = sid, body_message = message, req_user = Some u\<rparr> store)"

definition GET_session :: "authEnv \<Rightarrow> chatEnv \<Rightarrow> string option \<Rightarrow> string \<Rightarrow> session list \<Rightarrow> response" where
  "GET_session aenv env authHeader sid store = route getChatSession id aenv env authHeader sid [] store"

definition GET_history :: "authEnv \<Rightarrow> chatEnv \<Rightarrow> string option \<Rightarrow> string \<Rightarrow> session list \<Rightarrow> response" where
  "GET_history aenv env authHeader sid store = route getChatHistory id aenv env authHeader sid [] store"

definition GET_sessions :: "authEnv \<Rightarrow> chatEnv \<Rightarrow> string option \<Rightarrow> session list \<Rightarrow> response" where
  "GET_sessions aenv env authHeader store = route getAllUserSessions id aenv env authHeader [] [] store"

definition POST_sessions ::
  "authEnv \<Rightarrow> chatEnv \<Rightarrow> (objectId \<Rightarrow> thrown + user option) \<Rightarrow> string \<Rightarrow> string option \<Rightarrow>
   session list \<Rightarrow> response \<times> session list \<times> effect list" where
  "POST_sessions aenv env findUser uuid authHeader store =
     route (\<lambda>env. createChatSession env findUser uuid) (\<lambda>res. (res, store, []))
       aenv env authHeader [] [] store"

definition POST_message ::
  "authEnv \<Rightarrow> chatEnv \<Rightarrow> string option \<Rightarrow> string \<Rightarrow> string \<Rightarrow> session list \<Rightarrow>
   response \<times> session list \<times> effect list" where
  "POST_message aenv env authHeader sid message store =
     route sendMessage (\<lambda>res. (res, store, [])) aenv env authHeader sid message store"

section \<open>Sequences of requests\<close>

text \<open>
  \<open>sendMessage\<close> requests served one after the other on the same collection, each with
  its own collaborators; the responses are returned in the order of the calls.
\<close>

fun run :: "(chatEnv \<times> request) list \<Rightarrow> session list \<Rightarrow> response list \<times> session list" where
  "run [] store = ([], store)"
| "run ((env, req) # calls) store =
     (case sendMessage env req store of
        (r, store', tr) \<Rightarrow> (case run calls store' of (rs, store'') \<Rightarrow> (r # rs, store'')))"

text \<open>A call on session \<open>sid\<close> that was answered with 200 and a reply.\<close>

definition succeeded :: "string \<Rightarrow> (chatEnv \<times> request) \<times> response \<Rightarrow> bool" where
  "succeeded sid cr =
     (params_sessionId (snd (fst cr)) = sid \<and> statusCode (snd cr) = 200 \<and> is_Reply (body (snd cr)))"

text \<open>
  The two turns that such a call stands for, read off the request, the response and the two
  clock readings of the call: a user turn whose content is the raw message of the request,
  without metadata, then an assistant turn whose content is the reply text of the response
  and whose metadata are the analysis and the progress summary of the response.
\<close>

definition exchange :: "(chatEnv \<times> request) \<times> response \<Rightarrow> turn list" where
  "exchange cr =
     (case cr of ((env, req), r) \<Rightarrow>
        (case body r of
           Reply resp msg an pr \<Rightarrow>
             [\<lparr>role = RoleUser, content = body_message req, timestamp = date1 env, metadata = None\<rparr>,
              \<lparr>role = RoleAssistant, content = resp, timestamp = date2 env,
               metadata = Some \<lparr>m_analysis = an, m_progress = pr\<rparr>\<rparr>]
         | _ \<Rightarrow> []))"

section \<open>The Analysis Result structure\<close>

text \<open>
  The structure in the words of the specification: an emotional-state label (string), a
  list of theme labels, a numeric risk level, a recommended-approach label and a list of
  progress-indicator labels.
\<close>

definition isLabel :: "json option \<Rightarrow> bool" where
  "isLabel v = (case v of Some (JStr s) \<Rightarrow> True | _ \<Rightarrow> False)"

definition isLabelList :: "json option \<Rightarrow> bool" where
  "isLabelList v =
     (case v of Some (JArr xs) \<Rightarrow> list_all (\<lambda>x. case x of JStr s \<Rightarrow> True | _ \<Rightarrow> False) xs
      | _ \<Rightarrow> False)"

definition isNumber :: "json option \<Rightarrow> bool" where
  "isNumber v = (case v of Some (JNum n) \<Rightarrow> True | _ \<Rightarrow> False)"

definition spec_AnalysisResult :: "json \<Rightarrow> bool" where
  "spec_AnalysisResult v =
     (case v of
        JObj kvs \<Rightarrow>
          isLabel (map_of kvs ''emotionalState'') \<and> isLabelList (map_of kvs ''themes'') \<and>
          isNumber (map_of kvs ''riskLevel'') \<and> isLabel (map_of kvs ''recommendedApproach'') \<and>
          isLabelList (map_of kvs ''progressIndicators'')
      | _ \<Rightarrow> False)"

section \<open>What a response can carry of an error\<close>










section \<open>Compact tokens\<close>

text \<open>
  A token in compact serialization consists of base64url characters and dots only.
\<close>

definition jwsChar :: "char \<Rightarrow> bool" where
  "jwsChar c =
     (c \<in> set ''ABCDEFGHIJKLMNOPQRSTUVWXYZabcdefghijklmnopqrstuvwxyz0123456789-_.'')"

section \<open>Concrete collaborators for evaluation\<close>

text \<open>
  Stand-ins for the collaborators at the inputs evaluated below: an \<open>ObjectId\<close> constructor
  for 24 hexadecimal digits, a \<open>JSON.stringify\<close> for values without exotic characters, a
  \<open>JSON.parse\<close> that knows four texts and rejects the rest with a SyntaxError (its message
  shortened), a relay and a generation model with prescribed outcomes, a \<open>save\<close> that
  succeeds, and a token verifier that knows two tokens and checks in the order of
  \<open>jsonwebtoken\<close>: three segments, a decodable token, the signature.
\<close>

definition isHex :: "char \<Rightarrow> bool" where
  "isHex c = (c \<in> set ''0123456789abcdefABCDEF'')"

definition lowerHex :: "char \<Rightarrow> char" where
  "lowerHex c = (if c \<in> set ''ABCDEF'' then char_of (of_char c + (32::nat)) else c)"

definition demoObjectId :: "string \<Rightarrow> thrown + objectId" where
  "demoObjectId h =
     (if length h = 24 \<and> list_all isHex h then Inr (ObjectId (map lowerHex h))
      else Inl (ErrorObject ''BSONError''
             ''input must be a 24 character hex string, 12 byte Uint8Array, or an integer'' []))"

fun showNat :: "nat \<Rightarrow> string" where
  "showNat n =
     (if n < 10 then [char_of (48 + n)] else showNat (n div 10) @ [char_of (48 + n mod 10)])"

definition showInt :: "int \<Rightarrow> string" where
  "showInt i = (if i < 0 then ''-'' @ showNat (nat (- i)) else showNat (nat i))"

fun intercalate :: "string \<Rightarrow> string list \<Rightarrow> string" where
  "intercalate sep [] = []"
| "intercalate sep [x] = x"
| "intercalate sep (x # y # ys) = x @ sep @ intercalate sep (y # ys)"

definition quote :: "string \<Rightarrow> string" where
  "quote s =
     [CHR 0x22] @
     concat (map (\<lambda>c. if c = CHR 0x22 then [CHR 0x5C, CHR 0x22]
                       else if c = CHR 0x5C then [CHR 0x5C, CHR 0x5C]
                       else if c = CHR ''\<newline>'' then [CHR 0x5C, CHR ''n'']
                       else [c]) s) @
     [CHR 0x22]"

fun stringify :: "json \<Rightarrow> string" where
  "stringify JNull = ''null''"
| "stringify (JBool b) = (if b then ''true'' else ''false'')"
| "stringify (JNum i) = showInt i"
| "stringify (JStr s) = quote s"
| "stringify (JArr xs) = ''['' @ intercalate '','' (map stringify xs) @ '']''"
| "stringify (JObj kvs) =
     ''{'' @ intercalate '','' (map (\<lambda>kv. quote (fst kv) @ '':'' @ stringify (snd kv)) kvs) @ ''}''"

definition anxiousText :: string where
  \<open>anxiousText =
     ''{"emotionalState":"anxious","themes":["anxiety"],"riskLevel":2,"recommendedApproach":"grounding","progressIndicators":[]}''\<close>

definition anxious :: json where
  "anxious =
     JObj [(''emotionalState'', JStr ''anxious''), (''themes'', JArr [JStr ''anxiety'']),
           (''riskLevel'', JNum 2), (''recommendedApproach'', JStr ''grounding''),
           (''progressIndicators'', JArr [])]"

definition demoParse :: "string \<Rightarrow> thrown + json" where
  "demoParse s =
     (if s = anxiousText then Inr anxious
      else if s = ''{}'' then Inr (JObj [])
      else if s = ''[]'' then Inr (JArr [])
      else if s = ''null'' then Inr JNull
      else Inl (ErrorObject ''SyntaxError'' ''Unexpected token'' []))"

definition replyText :: string where
  "replyText = ''I hear that you are feeling anxious...''"

definition demoChat :: "thrown option \<Rightarrow> (thrown + string) \<Rightarrow> chatEnv" where
  "demoChat relayOut analysisOut =
     \<lparr>Types_ObjectId = demoObjectId, queryFault = None,
      inngest_send = (\<lambda>event. relayOut),
      generateContent = (\<lambda>prompt. if prefix ''Analyze'' prompt then analysisOut else Inr replyText),
      JSON_parse = demoParse, JSON_stringify = stringify,
      session_save = (\<lambda>session. None),
      date1 = 1700000000000, date2 = 1700000000500\<rparr>"

definition u1 :: user where
  "u1 = \<lparr>u_id = ObjectId ''64b7f0c2a1d3e4f5a6b7c801'', email = ''u1@example.org'', name = ''U One''\<rparr>"

definition u2 :: user where
  "u2 = \<lparr>u_id = ObjectId ''64b7f0c2a1d3e4f5a6b7c802'', email = ''u2@example.org'', name = ''U Two''\<rparr>"

definition asUser :: "user \<Rightarrow> reqUser" where
  "asUser u = \<lparr>ru_id = toString (u_id u), ru_oid = u_id u, ru_email = email u, ru_name = name u\<rparr>"

definition s1 :: session where
  "s1 = \<lparr>sessionId = ''s1'', userId = u_id u1, startTime = 1690000000000, status = ''active'',
          messages = []\<rparr>"

definition postAs :: "user \<Rightarrow> request" where
  "postAs u = \<lparr>params_sessionId = ''s1'', body_message = ''I feel anxious'', req_user = Some (asUser u)\<rparr>"

definition accounts :: "string \<Rightarrow> user option" where
  "accounts h =
     (if h = ''64b7f0c2a1d3e4f5a6b7c801'' then Some u1
      else if h = ''64b7f0c2a1d3e4f5a6b7c802'' then Some u2 else None)"

definition demoAuth :: "(string \<Rightarrow> user option) \<Rightarrow> authEnv" where
  "demoAuth users =
     \<lparr>env_JWT_SECRET = None,
      jwt_verify = (\<lambda>token key.
         if length (filter (\<lambda>c. c = CHR ''.'') token) \<noteq> 2 then
           Inl (ErrorObject ''JsonWebTokenError'' ''jwt malformed''
                  ''JsonWebTokenError: jwt malformed at module.exports'')
         else if token \<noteq> ''aaa.bbb.u1'' \<and> token \<noteq> ''aaa.bbb.u2'' then
           Inl (ErrorObject ''JsonWebTokenError'' ''invalid token''
                  ''JsonWebTokenError: invalid token at module.exports'')
         else if key \<noteq> fallbackSecret then
           Inl (ErrorObject ''JsonWebTokenError'' ''invalid signature''
                  ''JsonWebTokenError: invalid signature at module.exports'')
         else if token = ''aaa.bbb.u1'' then
           Inr \<lparr>p_userId = Some ''64b7f0c2a1d3e4f5a6b7c801'', p_iat = Some 1700000000,
                p_exp = Some 1700003600\<rparr>
         else
           Inr \<lparr>p_userId = Some ''64b7f0c2a1d3e4f5a6b7c802'', p_iat = Some 1700000000,
                p_exp = Some 1700003600\<rparr>),
      User_findById = (\<lambda>i. case i of None \<Rightarrow> Inr None | Some h \<Rightarrow> Inr (users h)),
      isoText = (\<lambda>t. if t = 1700000000000 then ''2023-11-14T22:13:20.000Z''
                      else if t = 1700003600000 then ''2023-11-14T23:13:20.000Z'' else [])\<rparr>"

text \<open>Two more sessions, thrown errors with a stack, and a collection of three documents.\<close>

definition s2 :: session where
  "s2 = \<lparr>sessionId = ''s2'', userId = u_id u2, startTime = 1695000000000, status = ''active'',
          messages = []\<rparr>"

definition s3 :: session where
  "s3 = \<lparr>sessionId = ''s3'', userId = u_id u1, startTime = 1699000000000, status = ''active'',
          messages = [\<lparr>role = RoleUser, content = ''hello'', timestamp = 1699000000100, metadata = None\<rparr>,
                      \<lparr>role = RoleAssistant, content = ''hi'', timestamp = 1699000000900,
                        metadata = Some \<lparr>m_analysis = JObj [],
                                          m_progress = \<lparr>emotionalState = None, riskLevel = None\<rparr>\<rparr>\<rparr>]\<rparr>"






definition relayError :: thrown where
  "relayError =
     ErrorObject ''Error'' ''Inngest API Error: 401 Event key not found''
       ''Error: Inngest API Error: 401 Event key not found at Inngest.send''"

definition demoCalls :: "(chatEnv \<times> request) list" where
  "demoCalls =
     [(demoChat None (Inr anxiousText), postAs u1),
      (demoChat None (Inr ''not json''), postAs u1),
      (demoChat None (Inr ''{}''), postAs u2),
      (demoChat None (Inr (''```json\<newline>'' @ anxiousText @ ''\<newline>```'')), postAs u1)]"

section \<open>Facts about the collection\<close>

lemma findOne_props:
  "findOne sid store = Some (i, s) \<Longrightarrow> i < length store \<and> store ! i = s \<and> sessionId s = sid"
  by (induction store arbitrary: i) (auto split: if_splits)

lemma findOne_update:
  "i < length store \<Longrightarrow> sessionId s' = sessionId (store ! i) \<Longrightarrow>
   findOne sid (store[i := s']) =
     map_option (\<lambda>(j, t). (j, if j = i then s' else t)) (findOne sid store)"
proof (induction store arbitrary: i)
  case Nil
  then show ?case by simp
next
  case (Cons a store)
  show ?case
  proof (cases i)
    case 0
    with Cons.prems show ?thesis
      by (auto simp: option.map_comp comp_def split_def intro!: option.map_cong)
  next
    case (Suc k)
    with Cons show ?thesis
      by (auto simp: option.map_comp comp_def split_def intro!: option.map_cong)
  qed
qed

text \<open>
  What one \<open>sendMessage\<close> does to the collection: nothing when the answer is not 200, and
  otherwise it appends the two turns to the document that \<open>findOne\<close> returned.
\<close>

lemma sendMessage_cases:
  "sendMessage env req store = (r, store', tr) \<Longrightarrow>
     (statusCode r \<noteq> 200 \<and> store' = store) \<or>
     (\<exists>i s resp an pr. findOne (params_sessionId req) store = Some (i, s) \<and>
        r = json_status 200 (Reply resp resp an pr) \<and>
        store' = store[i := s\<lparr>messages := messages s @
                   [userTurn env (body_message req), assistantTurn env resp an pr]\<rparr>])"
  unfolding sendMessage_def ChatSession_findOne_def caught_def json_status_def Let_def
  by (auto split: option.splits sum.splits if_splits prod.splits)

lemma sendMessage_collapse:
  "sendMessage env req store =
     (fst (sendMessage env req store), fst (snd (sendMessage env req store)),
      snd (snd (sendMessage env req store)))"
  by simp

lemma sendMessage_step:
  assumes "sendMessage env req store = (r, store', tr)"
      and "findOne sid store = Some (i, s)"
  shows "findOne sid store' =
           Some (i, s\<lparr>messages := messages s @
                        (if succeeded sid ((env, req), r) then exchange ((env, req), r) else [])\<rparr>)"
proof -
  from sendMessage_cases [OF assms(1)]
  consider (fail) "statusCode r \<noteq> 200" "store' = store"
    | (ok) j t resp an pr where "findOne (params_sessionId req) store = Some (j, t)"
        "r = json_status 200 (Reply resp resp an pr)"
        "store' = store[j := t\<lparr>messages := messages t @
                     [userTurn env (body_message req), assistantTurn env resp an pr]\<rparr>]"
    by blast
  then show ?thesis
  proof cases
    case fail
    then show ?thesis using assms(2) by (simp add: succeeded_def)
  next
    case ok
    from findOne_props [OF ok(1)] have j: "j < length store" "store ! j = t"
      "sessionId t = params_sessionId req" by simp_all
    from findOne_props [OF assms(2)] have i: "i < length store" "store ! i = s"
      "sessionId s = sid" by simp_all
    have upd: "findOne sid store' =
        map_option (\<lambda>(k, x). (k, if k = j then t\<lparr>messages := messages t @
            [userTurn env (body_message req), assistantTurn env resp an pr]\<rparr> else x))
          (findOne sid store)"
      unfolding ok(3) using j by (intro findOne_update) simp_all
    show ?thesis
    proof (cases "params_sessionId req = sid")
      case True
      with ok(1) assms(2) have "j = i" "t = s" by simp_all
      with upd assms(2) True ok(2) show ?thesis
        by (simp add: succeeded_def exchange_def json_status_def userTurn_def assistantTurn_def)
    next
      case False
      with i j have "i \<noteq> j" by auto
      with upd assms(2) False show ?thesis
        by (simp add: succeeded_def)
    qed
  qed
qed

lemma run_collapse: "run calls store = (fst (run calls store), snd (run calls store))"
  by simp

lemma run_appends:
  "findOne sid store = Some (i, s) \<Longrightarrow> run calls store = (rs, store') \<Longrightarrow>
   findOne sid store' =
     Some (i, s\<lparr>messages := messages s @
                  concat (map exchange (filter (succeeded sid) (zip calls rs)))\<rparr>)"
proof (induction calls arbitrary: store s rs store')
  case Nil
  then show ?case by simp
next
  case (Cons call calls)
  obtain env req where call: "call = (env, req)" by (cases call)
  obtain r st1 tr where sm: "sendMessage env req store = (r, st1, tr)"
    by (cases "sendMessage env req store")
  obtain rs1 st2 where rn: "run calls st1 = (rs1, st2)" by (cases "run calls st1")
  from Cons.prems(2) call sm rn have rs: "rs = r # rs1" and st: "store' = st2" by simp_all
  let ?s1 = "s\<lparr>messages := messages s @
                (if succeeded sid ((env, req), r) then exchange ((env, req), r) else [])\<rparr>"
  from sendMessage_step [OF sm Cons.prems(1)] have "findOne sid st1 = Some (i, ?s1)" .
  from Cons.IH [OF this rn] show ?case
    unfolding rs st call by simp
qed

lemma exchange_roles:
  "succeeded sid cr \<Longrightarrow> map role (exchange cr) = [RoleUser, RoleAssistant]"
  by (cases cr) (auto simp: succeeded_def exchange_def split: body.splits prod.splits)

lemma concat_exchange_roles:
  "map role (concat (map exchange (filter (succeeded sid) crs))) =
     concat (replicate (length (filter (succeeded sid) crs)) [RoleUser, RoleAssistant])"
  by (induction crs) (auto simp: exchange_roles)

lemma concat_exchange_length:
  "length (concat (map exchange (filter (succeeded sid) crs))) =
     2 * length (filter (succeeded sid) crs)"
proof -
  have "length (map role (concat (map exchange (filter (succeeded sid) crs)))) =
        length (concat (replicate (length (filter (succeeded sid) crs)) [RoleUser, RoleAssistant]))"
    by (simp only: concat_exchange_roles)
  then show ?thesis by (simp add: length_concat sum_list_replicate)
qed

text \<open>The shape of the effect list of one \<open>sendMessage\<close>.\<close>

lemma caught_status: "statusCode (caught e) = 500"
  by (simp add: caught_def json_status_def)

lemma sendMessage_trace:
  "(snd (snd (sendMessage env req store)) = [] \<and> statusCode (fst (sendMessage env req store)) \<noteq> 200) \<or>
   (\<exists>ev e. snd (snd (sendMessage env req store)) = [Publish ev] \<and> inngest_send env ev = Some e \<and>
      fst (sendMessage env req store) = caught e \<and> fst (snd (sendMessage env req store)) = store) \<or>
   (\<exists>ev rest. snd (snd (sendMessage env req store)) = Publish ev # rest \<and> inngest_send env ev = None \<and>
      (\<forall>ev'. Publish ev' \<notin> set rest))"
  unfolding sendMessage_def ChatSession_findOne_def Let_def json_status_def
  by (simp add: caught_status split: option.split sum.split prod.split)

text \<open>Where the reply and the analysis of a 200 answer come from.\<close>

lemma sendMessage_reply_origin:
  "sendMessage env req store = (r, store', tr) \<Longrightarrow> statusCode r = 200 \<Longrightarrow>
     \<exists>p1 t1 p2 t2 an pr.
        generateContent env p1 = Inr t1 \<and>
        JSON_parse env (trim (replaceFences (trim t1))) = Inr an \<and>
        generateContent env p2 = Inr t2 \<and>
        body r = Reply (trim t2) (trim t2) an pr"
  unfolding sendMessage_def ChatSession_findOne_def Let_def
  by (auto simp: caught_status json_status_def split: option.splits sum.splits if_splits prod.splits)
     blast

lemma run_zip:
  "run calls store = (rs, store') \<Longrightarrow> (c, r) \<in> set (zip calls rs) \<Longrightarrow>
     \<exists>st st' tr. sendMessage (fst c) (snd c) st = (r, st', tr)"
proof (induction calls arbitrary: store rs store')
  case Nil
  then show ?case by simp
next
  case (Cons call calls)
  obtain env req where call: "call = (env, req)" by (cases call)
  obtain r0 st1 tr where sm: "sendMessage env req store = (r0, st1, tr)"
    by (cases "sendMessage env req store")
  obtain rs1 st2 where rn: "run calls st1 = (rs1, st2)" by (cases "run calls st1")
  from Cons.prems(1) call sm rn have rs: "rs = r0 # rs1" by simp
  from Cons.prems(2) rs have "(c, r) = (call, r0) \<or> (c, r) \<in> set (zip calls rs1)" by simp
  then show ?case
  proof
    assume "(c, r) = (call, r0)"
    with call sm show ?thesis by auto
  next
    assume "(c, r) \<in> set (zip calls rs1)"
    from Cons.IH [OF rn this] show ?thesis .
  qed
qed

lemma run_reply_origin:
  assumes "run calls store = (rs, store')" and "cr \<in> set (filter (succeeded sid) (zip calls rs))"
  shows "\<exists>p1 t1 p2 t2 an pr.
           generateContent (fst (fst cr)) p1 = Inr t1 \<and>
           JSON_parse (fst (fst cr)) (trim (replaceFences (trim t1))) = Inr an \<and>
           generateContent (fst (fst cr)) p2 = Inr t2 \<and>
           body (snd cr) = Reply (trim t2) (trim t2) an pr"
proof -
  obtain c r where cr: "cr = (c, r)" by (cases cr)
  from assms(2) cr have z: "(c, r) \<in> set (zip calls rs)" and ok: "statusCode r = 200"
    by (simp_all add: succeeded_def)
  from run_zip [OF assms(1) z] obtain st st' tr where "sendMessage (fst c) (snd c) st = (r, st', tr)"
    by blast
  from sendMessage_reply_origin [OF this ok] show ?thesis unfolding cr by simp
qed



section \<open>Facts about the string operations\<close>

lemma dropWhile_keep: "s \<noteq> [] \<Longrightarrow> \<not> P (hd s) \<Longrightarrow> dropWhile P s = s"
  by (cases s) simp_all





lemma replaceFirst_absent:
  "x \<in> set pat \<Longrightarrow> x \<notin> set s \<Longrightarrow> replaceFirst pat rep s = s"
proof (induction s)
  case Nil
  then show ?case by auto
next
  case (Cons c s)
  have "\<not> prefix pat (c # s)"
    using Cons.prems set_mono_prefix by fastforce
  with Cons show ?case by simp
qed

lemma replaceFirst_prefix: "replaceFirst pat rep (pat @ rest) = rep @ rest"
proof (cases "pat @ rest")
  case Nil
  then show ?thesis by simp
next
  case (Cons a list)
  have "prefix pat (pat @ rest)" by simp
  then have "replaceFirst pat rep (a # list) = rep @ drop (length pat) (a # list)"
    unfolding Cons by simp
  then show ?thesis unfolding Cons [symmetric] by simp
qed

lemma replaceFirst_first:
  "(\<forall>i<length pre. \<not> prefix pat (drop i (pre @ pat @ rest))) \<Longrightarrow>
   replaceFirst pat rep (pre @ pat @ rest) = pre @ rep @ rest"
proof (induction pre)
  case Nil
  show ?case by (simp add: replaceFirst_prefix)
next
  case (Cons c pre)
  from Cons.prems have 0: "\<not> prefix pat (c # pre @ pat @ rest)" by force
  from Cons.prems have "\<forall>i<length pre. \<not> prefix pat (drop i (pre @ pat @ rest))" by force
  from Cons.IH [OF this] 0 show ?case by simp
qed

lemma jws_no_space: "list_all jwsChar tok \<Longrightarrow> CHR '' '' \<notin> set tok"
  by (auto simp: list_all_iff jwsChar_def)

lemma tokenOf_bare: "list_all jwsChar tok \<Longrightarrow> tokenOf (Some tok) = Some tok"
  unfolding tokenOf_def
  by (simp add: replaceFirst_absent [where x = "CHR '' ''"] jws_no_space)

lemma tokenOf_Bearer: "tokenOf (Some (''Bearer '' @ tok)) = Some tok"
  unfolding tokenOf_def using replaceFirst_prefix [of "''Bearer ''" "[]" tok] by simp

section \<open>Facts about the middleware\<close>

text \<open>The outcome of \<open>auth\<close> depends on the header only through the token.\<close>

lemma auth_token_only:
  "tokenOf h = tokenOf h' \<Longrightarrow> fst (auth env h) = fst (auth env h')"
  unfolding auth_def Let_def jwtFailed_def
  by (simp split: option.split sum.split)




section \<open>Facts about redaction in the controller\<close>








section \<open>Facts about the ownership comparison\<close>

text \<open>
  \<open>sendMessage\<close> and \<open>getChatHistory\<close> answer 403 to a caller whose identifier differs from
  the owner of the session found; the answer of \<open>getChatSession\<close> does not depend on
  \<open>req.user\<close> at all.
\<close>

lemma sendMessage_forbidden:
  assumes "req_user req = Some u" "ru_id u \<noteq> []" "Types_ObjectId env (ru_id u) = Inr caller"
    "queryFault env = None" "findOne (params_sessionId req) store = Some (i, s)"
    "toString (userId s) \<noteq> toString caller"
  shows "sendMessage env req store = (json_status 403 (Fail (Some ''Unauthorized'') None), store, [])"
  using assms unfolding sendMessage_def ChatSession_findOne_def by simp

lemma getChatHistory_forbidden:
  assumes "req_user req = Some u" "ru_id u \<noteq> []" "Types_ObjectId env (ru_id u) = Inr caller"
    "queryFault env = None" "findOne (params_sessionId req) store = Some (i, s)"
    "toString (userId s) \<noteq> toString caller"
  shows "getChatHistory env req store = json_status 403 (Fail (Some ''Unauthorized'') None)"
  using assms unfolding getChatHistory_def ChatSession_findOne_def by simp

lemma getChatSession_any_caller:
  "getChatSession env (req\<lparr>req_user := caller\<rparr>) store = getChatSession env req store"
  by (simp add: getChatSession_def)

lemma getChatSession_found:
  "queryFault env = None \<Longrightarrow> findOne (params_sessionId req) store = Some (i, s) \<Longrightarrow>
   getChatSession env req store = json_status 200 (SessionDoc s)"
  by (simp add: getChatSession_def ChatSession_findOne_def)

section \<open>Facts about what the handlers answer on failure\<close>












section \<open>Facts about the session list\<close>

lemma sorted_desc:
  "sorted_wrt (\<ge>) (map startTime (sort_key (\<lambda>s. - startTime s) xs))"
proof -
  have "sorted (map (\<lambda>s. - startTime s) (sort_key (\<lambda>s. - startTime s) xs))"
    by (rule sorted_sort_key)
  then show ?thesis by (simp add: sorted_wrt_map)
qed

lemma formatSession_sel:
  "createdAt (formatSession s) = startTime s"
  "updatedAt (formatSession s) =
     (if messages s = [] then startTime s else timestamp (last (messages s)))"
  by (simp_all add: formatSession_def last_conv_nth)

section \<open>Ownership on the session routes\<close>

text \<open>
  C1. Every operation on a session answers 403 to a caller who is not its owner. On
  \<open>GET /chat/sessions/:sessionId\<close> the code does not: \<open>getChatSession\<close> never compares the
  owner. With the token of account \<open>u2\<close> and session \<open>s1\<close> of account \<open>u1\<close>, the route
  answers 200 with the whole document, where the history route and the message route
  answer 403 on the same input.
\<close>

theorem getChatSession_serves_foreign_session:
  "GET_session (demoAuth accounts) (demoChat None (Inr anxiousText))
       (Some ''Bearer aaa.bbb.u2'') ''s1'' [s1] = json_status 200 (SessionDoc s1) \<and>
   userId s1 = u_id u1 \<and> u_id u1 \<noteq> u_id u2 \<and>
   fst (auth (demoAuth accounts) (Some ''Bearer aaa.bbb.u2'')) = Inr (asUser u2) \<and>
   GET_history (demoAuth accounts) (demoChat None (Inr anxiousText))
       (Some ''Bearer aaa.bbb.u2'') ''s1'' [s1] = json_status 403 (Fail (Some ''Unauthorized'') None) \<and>
   fst (POST_message (demoAuth accounts) (demoChat None (Inr anxiousText))
       (Some ''Bearer aaa.bbb.u2'') ''s1'' ''hello'' [s1]) = json_status 403 (Fail (Some ''Unauthorized'') None)"
  by code_simp

section \<open>A token whose account is gone\<close>

text \<open>
  C2, as stated: a valid token whose account no longer exists is answered with status 404.
  It is not: the token \<open>aaa.bbb.u1\<close> verifies, no account is stored, and the middleware
  answers 401.
\<close>

theorem account_missing_is_401_not_404:
  "jwt_verify (demoAuth (\<lambda>h. None)) ''aaa.bbb.u1'' (JWT_SECRET (demoAuth (\<lambda>h. None))) =
     Inr \<lparr>p_userId = Some ''64b7f0c2a1d3e4f5a6b7c801'', p_iat = Some 1700000000, p_exp = Some 1700003600\<rparr> \<and>
   User_findById (demoAuth (\<lambda>h. None)) (Some ''64b7f0c2a1d3e4f5a6b7c801'') = Inr None \<and>
   map_sum statusCode ru_id (fst (auth (demoAuth (\<lambda>h. None)) (Some ''Bearer aaa.bbb.u1''))) = Inl 401 \<and>
   map_sum statusCode ru_id (fst (auth (demoAuth (\<lambda>h. None)) (Some ''Bearer aaa.bbb.u1''))) \<noteq> Inl 404"
  by code_simp

text \<open>
  C2, amended: a token that verifies, whose \<open>iat\<close> and \<open>exp\<close> claims are dates that can be
  printed, and whose account no longer exists, is answered with status 401 and the message
  \<open>User not found\<close>; \<open>next()\<close> is not called.
\<close>

theorem auth_account_missing:
  assumes "tokenOf authHeader = Some tok" and "tok \<noteq> []"
      and "jwt_verify env tok (JWT_SECRET env) = Inr decoded"
      and "toISOString env (p_iat decoded) = Inr issued"
      and "toISOString env (p_exp decoded) = Inr expires"
      and "User_findById env (p_userId decoded) = Inr None"
  shows "fst (auth env authHeader) =
           Inl (json_status 401 (Fail (Some ''User not found'') (Some ''User account no longer exists'')))"
  using assms unfolding auth_def Let_def by simp

text \<open>The hypotheses of C2 at the token \<open>aaa.bbb.u1\<close> with no account stored.\<close>

theorem auth_account_missing_witness:
  "tokenOf (Some ''Bearer aaa.bbb.u1'') = Some ''aaa.bbb.u1'' \<and>
   jwt_verify (demoAuth (\<lambda>h. None)) ''aaa.bbb.u1'' (JWT_SECRET (demoAuth (\<lambda>h. None))) =
     Inr \<lparr>p_userId = Some ''64b7f0c2a1d3e4f5a6b7c801'', p_iat = Some 1700000000, p_exp = Some 1700003600\<rparr> \<and>
   User_findById (demoAuth (\<lambda>h. None)) (Some ''64b7f0c2a1d3e4f5a6b7c801'') = Inr None \<and>
   fst (auth (demoAuth (\<lambda>h. None)) (Some ''Bearer aaa.bbb.u1'')) =
     Inl (json_status 401 (Fail (Some ''User not found'') (Some ''User account no longer exists'')))"
proof -
  let ?env = "demoAuth (\<lambda>h. None)"
  let ?p = "\<lparr>p_userId = Some ''64b7f0c2a1d3e4f5a6b7c801'', p_iat = Some 1700000000,
             p_exp = Some 1700003600\<rparr>"
  have h1: "tokenOf (Some ''Bearer aaa.bbb.u1'') = Some ''aaa.bbb.u1''" by code_simp
  have h2: "''aaa.bbb.u1'' \<noteq> []" by simp
  have h3: "jwt_verify ?env ''aaa.bbb.u1'' (JWT_SECRET ?env) = Inr ?p" by code_simp
  have h4: "toISOString ?env (p_iat ?p) = Inr ''2023-11-14T22:13:20.000Z''" by code_simp
  have h5: "toISOString ?env (p_exp ?p) = Inr ''2023-11-14T23:13:20.000Z''" by code_simp
  have h6: "User_findById ?env (p_userId ?p) = Inr None" by code_simp
  from auth_account_missing [OF h1 h2 h3 h4 h5 h6] h1 h3 h6 show ?thesis by simp
qed

section \<open>Analysis output that cannot be used\<close>

text \<open>
  C3, as stated: whenever the analysis output does not parse as the Analysis Result
  structure, the request fails and no turn is appended. It does not: the output \<open>{}\<close> is
  JSON but not an Analysis Result, and the request is answered 200 with two turns saved.
\<close>

theorem non_analysis_json_is_accepted:
  "JSON_parse (demoChat None (Inr ''{}'')) (trim (replaceFences (trim ''{}''))) = Inr (JObj []) \<and>
   \<not> spec_AnalysisResult (JObj []) \<and>
   statusCode (fst (sendMessage (demoChat None (Inr ''{}'')) (postAs u1) [s1])) = 200 \<and>
   map (\<lambda>s. length (messages s)) (fst (snd (sendMessage (demoChat None (Inr ''{}'')) (postAs u1) [s1]))) = [2]"
  by code_simp

text \<open>
  C3, amended: whenever \<open>JSON.parse\<close> rejects the analysis output (after the fence
  replacement and trimming), the request is answered 500 with the message
  \<open>Error processing message\<close>, the collection is what it was, and the only effects are the
  publish and the first generation request: nothing is appended and nothing is saved.
\<close>

theorem sendMessage_unparsable_analysis:
  assumes "req_user req = Some u" and "ru_id u \<noteq> []"
      and "Types_ObjectId env (ru_id u) = Inr caller"
      and "queryFault env = None"
      and "findOne (params_sessionId req) store = Some (i, s)"
      and "toString (userId s) = toString caller"
      and "inngest_send env (mkEvent (body_message req) (messages s)) = None"
      and "generateContent env
             (analysisPrompt env (body_message req) (mkEvent (body_message req) (messages s))) = Inr text1"
      and "JSON_parse env (trim (replaceFences (trim text1))) = Inl e"
  shows "sendMessage env req store =
           (json_status 500 (Fail (Some ''Error processing message'') (Some (errorText e ''Unknown error''))),
            store,
            [Publish (mkEvent (body_message req) (messages s)),
             Generate (analysisPrompt env (body_message req) (mkEvent (body_message req) (messages s)))])"
  using assms
  unfolding sendMessage_def ChatSession_findOne_def Let_def caught_def
  by simp

text \<open>The hypotheses of C3 for the output \<open>not json\<close> on session \<open>s1\<close>.\<close>

theorem sendMessage_unparsable_analysis_witness:
  "generateContent (demoChat None (Inr ''not json''))
     (analysisPrompt (demoChat None (Inr ''not json'')) ''I feel anxious'' (mkEvent ''I feel anxious'' [])) =
     Inr ''not json'' \<and>
   JSON_parse (demoChat None (Inr ''not json'')) (trim (replaceFences (trim ''not json''))) =
     Inl (ErrorObject ''SyntaxError'' ''Unexpected token'' []) \<and>
   sendMessage (demoChat None (Inr ''not json'')) (postAs u1) [s1] =
     (json_status 500 (Fail (Some ''Error processing message'') (Some ''Unexpected token'')),
      [s1],
      [Publish (mkEvent ''I feel anxious'' []),
       Generate (analysisPrompt (demoChat None (Inr ''not json'')) ''I feel anxious''
                   (mkEvent ''I feel anxious'' []))])"
proof -
  let ?env = "demoChat None (Inr ''not json'')"
  have h1: "req_user (postAs u1) = Some (asUser u1)" by (simp add: postAs_def)
  have h2: "ru_id (asUser u1) \<noteq> []" by code_simp
  have h3: "Types_ObjectId ?env (ru_id (asUser u1)) = Inr (u_id u1)" by code_simp
  have h4: "queryFault ?env = None" by (simp add: demoChat_def)
  have h5: "findOne (params_sessionId (postAs u1)) [s1] = Some (0, s1)" by code_simp
  have h6: "toString (userId s1) = toString (u_id u1)" by (simp add: s1_def)
  have m: "body_message (postAs u1) = ''I feel anxious''" "messages s1 = []"
    by (simp_all add: postAs_def s1_def)
  have h7: "inngest_send ?env (mkEvent (body_message (postAs u1)) (messages s1)) = None"
    by (simp add: demoChat_def)
  have h8: "generateContent ?env
             (analysisPrompt ?env (body_message (postAs u1)) (mkEvent (body_message (postAs u1)) (messages s1))) =
            Inr ''not json''"
    unfolding m by code_simp
  have h9: "JSON_parse ?env (trim (replaceFences (trim ''not json''))) =
            Inl (ErrorObject ''SyntaxError'' ''Unexpected token'' [])"
    by code_simp
  from sendMessage_unparsable_analysis [OF h1 h2 h3 h4 h5 h6 h7 h8 h9] h8 h9
  show ?thesis unfolding m by (simp add: errorText_def)
qed

section \<open>Turns after a sequence of requests\<close>

text \<open>
  C4. A session starts with no turns; \<open>sendMessage\<close> requests are served one after the
  other (on this session or on others, answered 200 or not). Afterwards the session is the
  same document, and its turn sequence is exactly the exchanges of the requests on it that
  were answered 200, in the order of the calls: each exchange is a user turn whose content
  is the raw message of the request, without metadata, followed by an assistant turn whose
  content is the reply text and whose metadata hold the analysis and the progress summary;
  the reply text is the trimmed text that the generation model returned, and the analysis
  is what \<open>JSON.parse\<close> made of its cleaned analysis output. So with N such requests there
  are 2N turns, with the roles alternating.
\<close>

theorem run_turns_alternate:
  assumes "findOne sid store = Some (i, s)" and "messages s = []"
      and "run calls store = (rs, store')"
  shows "\<exists>s'. findOne sid store' = Some (i, s') \<and>
           messages s' = concat (map exchange (filter (succeeded sid) (zip calls rs))) \<and>
           length (messages s') = 2 * length (filter (succeeded sid) (zip calls rs)) \<and>
           map role (messages s') =
             concat (replicate (length (filter (succeeded sid) (zip calls rs)))
                       [RoleUser, RoleAssistant]) \<and>
           (\<forall>cr \<in> set (filter (succeeded sid) (zip calls rs)).
              \<exists>p1 t1 p2 t2 an pr.
                generateContent (fst (fst cr)) p1 = Inr t1 \<and>
                JSON_parse (fst (fst cr)) (trim (replaceFences (trim t1))) = Inr an \<and>
                generateContent (fst (fst cr)) p2 = Inr t2 \<and>
                body (snd cr) = Reply (trim t2) (trim t2) an pr)"
proof -
  let ?done = "filter (succeeded sid) (zip calls rs)"
  let ?s' = "s\<lparr>messages := messages s @ concat (map exchange ?done)\<rparr>"
  have f: "findOne sid store' = Some (i, ?s')"
    using assms(1,3) by (rule run_appends)
  have m: "messages ?s' = concat (map exchange ?done)" using assms(2) by simp
  have l: "length (messages ?s') = 2 * length ?done"
    unfolding m by (rule concat_exchange_length)
  have r: "map role (messages ?s') = concat (replicate (length ?done) [RoleUser, RoleAssistant])"
    unfolding m by (rule concat_exchange_roles)
  have g: "\<forall>cr \<in> set ?done.
              \<exists>p1 t1 p2 t2 an pr.
                generateContent (fst (fst cr)) p1 = Inr t1 \<and>
                JSON_parse (fst (fst cr)) (trim (replaceFences (trim t1))) = Inr an \<and>
                generateContent (fst (fst cr)) p2 = Inr t2 \<and>
                body (snd cr) = Reply (trim t2) (trim t2) an pr"
    using run_reply_origin [OF assms(3)] by blast
  from f m l r g show ?thesis by (intro exI [of _ ?s'] conjI)
qed

text \<open>
  The hypotheses of C4 on four requests for session \<open>s1\<close>: two are answered 200, one fails
  on the analysis, one comes from another account. The session ends with the four turns of
  the two answered requests.
\<close>

theorem run_turns_alternate_witness:
  "findOne ''s1'' [s1] = Some (0, s1) \<and> messages s1 = [] \<and>
   map statusCode (fst (run demoCalls [s1])) = [200, 500, 403, 200] \<and>
   length (filter (succeeded ''s1'') (zip demoCalls (fst (run demoCalls [s1])))) = 2 \<and>
   (\<exists>s'. findOne ''s1'' (snd (run demoCalls [s1])) = Some (0, s') \<and>
      messages s' =
        [\<lparr>role = RoleUser, content = ''I feel anxious'', timestamp = 1700000000000, metadata = None\<rparr>,
         \<lparr>role = RoleAssistant, content = ''I hear that you are feeling anxious...'',
          timestamp = 1700000000500,
          metadata = Some \<lparr>m_analysis = anxious,
                            m_progress = \<lparr>emotionalState = Some (JStr ''anxious''),
                                          riskLevel = Some (JNum 2)\<rparr>\<rparr>\<rparr>,
         \<lparr>role = RoleUser, content = ''I feel anxious'', timestamp = 1700000000000, metadata = None\<rparr>,
         \<lparr>role = RoleAssistant, content = ''I hear that you are feeling anxious...'',
          timestamp = 1700000000500,
          metadata = Some \<lparr>m_analysis = anxious,
                            m_progress = \<lparr>emotionalState = Some (JStr ''anxious''),
                                          riskLevel = Some (JNum 2)\<rparr>\<rparr>\<rparr>] \<and>
      length (messages s') = 4 \<and>
      map role (messages s') = [RoleUser, RoleAssistant, RoleUser, RoleAssistant])"
proof -
  define turns where "turns =
        [\<lparr>role = RoleUser, content = ''I feel anxious'', timestamp = 1700000000000, metadata = None\<rparr>,
         \<lparr>role = RoleAssistant, content = ''I hear that you are feeling anxious...'',
          timestamp = 1700000000500,
          metadata = Some \<lparr>m_analysis = anxious,
                            m_progress = \<lparr>emotionalState = Some (JStr ''anxious''),
                                          riskLevel = Some (JNum 2)\<rparr>\<rparr>\<rparr>,
         \<lparr>role = RoleUser, content = ''I feel anxious'', timestamp = 1700000000000, metadata = None\<rparr>,
         \<lparr>role = RoleAssistant, content = ''I hear that you are feeling anxious...'',
          timestamp = 1700000000500,
          metadata = Some \<lparr>m_analysis = anxious,
                            m_progress = \<lparr>emotionalState = Some (JStr ''anxious''),
                                          riskLevel = Some (JNum 2)\<rparr>\<rparr>\<rparr>]"
  have h1: "findOne ''s1'' [s1] = Some (0, s1)" by code_simp
  have h2: "messages s1 = []" by (simp add: s1_def)
  have h3: "map statusCode (fst (run demoCalls [s1])) = [200, 500, 403, 200]" by code_simp
  have n: "length (filter (succeeded ''s1'') (zip demoCalls (fst (run demoCalls [s1])))) = 2"
    by code_simp
  have e: "concat (map exchange (filter (succeeded ''s1'') (zip demoCalls (fst (run demoCalls [s1]))))) = turns"
    unfolding turns_def by code_simp
  from run_turns_alternate [OF h1 h2 run_collapse [of demoCalls "[s1]"]]
  obtain s' where f: "findOne ''s1'' (snd (run demoCalls [s1])) = Some (0, s')"
    and c: "messages s' =
           concat (map exchange (filter (succeeded ''s1'') (zip demoCalls (fst (run demoCalls [s1])))))"
    and l: "length (messages s') =
           2 * length (filter (succeeded ''s1'') (zip demoCalls (fst (run demoCalls [s1]))))"
    and r: "map role (messages s') =
           concat (replicate (length (filter (succeeded ''s1'') (zip demoCalls (fst (run demoCalls [s1])))))
                     [RoleUser, RoleAssistant])"
    by (elim exE conjE)
  from c have c4: "messages s' = turns" unfolding e .
  from l have l4: "length (messages s') = 4" unfolding n by simp
  from r have r4: "map role (messages s') = [RoleUser, RoleAssistant, RoleUser, RoleAssistant]"
    unfolding n by (simp add: numeral_2_eq_2)
  have "\<exists>s'. findOne ''s1'' (snd (run demoCalls [s1])) = Some (0, s') \<and>
      messages s' = turns \<and> length (messages s') = 4 \<and>
      map role (messages s') = [RoleUser, RoleAssistant, RoleUser, RoleAssistant]"
    using f c4 l4 r4 by (intro exI [of _ s'] conjI)
  with h1 h2 h3 n show ?thesis unfolding turns_def by (intro conjI)
qed

section \<open>The relay comes first\<close>

text \<open>
  C7. In every execution of \<open>sendMessage\<close> the publish on the relay is the first effect and
  happens once; a generation request is only made, and 200 is only answered, after the
  publish returned without error. When the publish fails, the request is answered 500 with
  the message \<open>Error processing message\<close>, the collection is what it was, and there is no
  further effect: no generation request and no save.
\<close>

theorem relay_precedes_generation:
  assumes "sendMessage env req store = (r, store', tr)"
  shows "(tr = [] \<or> (\<exists>ev rest. tr = Publish ev # rest \<and> (\<forall>ev'. Publish ev' \<notin> set rest))) \<and>
         (\<forall>p. Generate p \<in> set tr \<longrightarrow>
            (\<exists>ev rest. tr = Publish ev # rest \<and> inngest_send env ev = None)) \<and>
         (statusCode r = 200 \<longrightarrow>
            (\<exists>ev rest. tr = Publish ev # rest \<and> inngest_send env ev = None)) \<and>
         (\<forall>ev e. Publish ev \<in> set tr \<and> inngest_send env ev = Some e \<longrightarrow>
            r = json_status 500 (Fail (Some ''Error processing message'')
                                      (Some (errorText e ''Unknown error''))) \<and>
            store' = store \<and> tr = [Publish ev])"
proof -
  from sendMessage_trace [of env req store] assms
  consider (none) "tr = []" "statusCode r \<noteq> 200"
    | (failed) ev e where "tr = [Publish ev]" "inngest_send env ev = Some e" "r = caught e" "store' = store"
    | (sent) ev rest where "tr = Publish ev # rest" "inngest_send env ev = None" "\<forall>ev'. Publish ev' \<notin> set rest"
    by auto
  then show ?thesis
  proof cases
    case none
    then show ?thesis by simp
  next
    case failed
    then show ?thesis by (auto simp: caught_def json_status_def)
  next
    case sent
    then show ?thesis by auto
  qed
qed

text \<open>The hypotheses of C7 on a request whose publish fails.\<close>

theorem relay_precedes_generation_witness:
  "inngest_send (demoChat (Some relayError) (Inr anxiousText)) (mkEvent ''I feel anxious'' []) =
     Some relayError \<and>
   Publish (mkEvent ''I feel anxious'' []) \<in>
     set (snd (snd (sendMessage (demoChat (Some relayError) (Inr anxiousText)) (postAs u1) [s1]))) \<and>
   fst (sendMessage (demoChat (Some relayError) (Inr anxiousText)) (postAs u1) [s1]) =
     json_status 500 (Fail (Some ''Error processing message'')
                           (Some ''Inngest API Error: 401 Event key not found'')) \<and>
   fst (snd (sendMessage (demoChat (Some relayError) (Inr anxiousText)) (postAs u1) [s1])) = [s1] \<and>
   snd (snd (sendMessage (demoChat (Some relayError) (Inr anxiousText)) (postAs u1) [s1])) =
     [Publish (mkEvent ''I feel anxious'' [])]"
proof -
  define env where "env = demoChat (Some relayError) (Inr anxiousText)"
  define ev where "ev = mkEvent ''I feel anxious'' []"
  define out where "out = sendMessage env (postAs u1) [s1]"
  have h1: "inngest_send env ev = Some relayError" by (simp add: env_def demoChat_def)
  have h2: "Publish ev \<in> set (snd (snd out))" unfolding out_def env_def ev_def by code_simp
  have c: "sendMessage env (postAs u1) [s1] = (fst out, fst (snd out), snd (snd out))"
    unfolding out_def by simp
  have t: "errorText relayError ''Unknown error'' = ''Inngest API Error: 401 Event key not found''"
    by (simp add: errorText_def relayError_def)
  from relay_precedes_generation [OF c]
  have "\<forall>ev e. Publish ev \<in> set (snd (snd out)) \<and> inngest_send env ev = Some e \<longrightarrow>
            fst out = json_status 500 (Fail (Some ''Error processing message'')
                                      (Some (errorText e ''Unknown error''))) \<and>
            fst (snd out) = [s1] \<and> snd (snd out) = [Publish ev]"
    by (elim conjE)
  with h1 h2 have "fst out = json_status 500 (Fail (Some ''Error processing message'')
                                      (Some (errorText relayError ''Unknown error''))) \<and>
            fst (snd out) = [s1] \<and> snd (snd out) = [Publish ev]"
    by blast
  with h1 h2 show ?thesis unfolding t out_def env_def ev_def by (intro conjI) (elim conjE, assumption)+
qed

section \<open>What a successful request changes\<close>

text \<open>
  C8. A \<open>sendMessage\<close> answered 200 changes the collection in one document only, the one
  that \<open>findOne\<close> returned for the session identifier: its identifier, owner, start time and
  status are what they were, and its turn sequence is the old one followed by a user turn
  and an assistant turn.
\<close>

theorem sendMessage_appends_two_turns:
  assumes "sendMessage env req store = (r, store', tr)" and "statusCode r = 200"
  shows "\<exists>i s s' u a. findOne (params_sessionId req) store = Some (i, s) \<and>
           store' = store[i := s'] \<and>
           sessionId s' = sessionId s \<and> userId s' = userId s \<and>
           startTime s' = startTime s \<and> status s' = status s \<and>
           messages s' = messages s @ [u, a] \<and>
           role u = RoleUser \<and> role a = RoleAssistant"
proof -
  from sendMessage_cases [OF assms(1)] assms(2)
  obtain i s resp an pr where f: "findOne (params_sessionId req) store = Some (i, s)"
    and st: "store' = store[i := s\<lparr>messages := messages s @
               [userTurn env (body_message req), assistantTurn env resp an pr]\<rparr>]"
    by auto
  show ?thesis
    using f st
    by (intro exI[of _ i] exI[of _ s]
          exI[of _ "s\<lparr>messages := messages s @
                     [userTurn env (body_message req), assistantTurn env resp an pr]\<rparr>"]
          exI[of _ "userTurn env (body_message req)"] exI[of _ "assistantTurn env resp an pr"])
       (simp add: userTurn_def assistantTurn_def)
qed

text \<open>The hypotheses of C8 on a request for session \<open>s3\<close>, which already has two turns.\<close>

theorem sendMessage_appends_two_turns_witness:
  "statusCode (fst (sendMessage (demoChat None (Inr anxiousText))
                      \<lparr>params_sessionId = ''s3'', body_message = ''again'', req_user = Some (asUser u1)\<rparr>
                      [s1, s2, s3])) = 200 \<and>
   (\<exists>i s s' u a.
      findOne ''s3'' [s1, s2, s3] = Some (i, s) \<and>
      fst (snd (sendMessage (demoChat None (Inr anxiousText))
                  \<lparr>params_sessionId = ''s3'', body_message = ''again'', req_user = Some (asUser u1)\<rparr>
                  [s1, s2, s3])) = [s1, s2, s3][i := s'] \<and>
      sessionId s' = sessionId s \<and> userId s' = userId s \<and>
      startTime s' = startTime s \<and> status s' = status s \<and>
      messages s' = messages s @ [u, a] \<and> role u = RoleUser \<and> role a = RoleAssistant)"
proof -
  let ?req = "\<lparr>params_sessionId = ''s3'', body_message = ''again'', req_user = Some (asUser u1)\<rparr>"
  let ?out = "sendMessage (demoChat None (Inr anxiousText)) ?req [s1, s2, s3]"
  have ok: "statusCode (fst ?out) = 200" by code_simp
  from sendMessage_appends_two_turns [OF sendMessage_collapse ok] ok
  show ?thesis by simp
qed

section \<open>What reaches the caller of a failed request\<close>




section \<open>Fenced analysis output\<close>




section \<open>The list of the caller's sessions\<close>

text \<open>
  C9. For an authenticated caller \<open>getAllUserSessions\<close> answers 200 with one summary for
  each session of the collection that the caller owns and for no other, ordered by creation
  time with the latest first; the last-activity time of a summary is the time of the last
  turn of the session, or its creation time when it has no turns.
\<close>

theorem getAllUserSessions_summaries:
  assumes "req_user req = Some u" and "ru_id u \<noteq> []"
      and "Types_ObjectId env (ru_id u) = Inr owner"
      and "queryFault env = None"
  shows "\<exists>sessions.
           getAllUserSessions env req store = json_status 200 (Summaries (map formatSession sessions)) \<and>
           mset sessions = mset (filter (\<lambda>s. userId s = owner) store) \<and>
           sorted_wrt (\<ge>) (map createdAt (map formatSession sessions)) \<and>
           (\<forall>s \<in> set sessions.
              s_sessionId (formatSession s) = sessionId s \<and>
              updatedAt (formatSession s) =
                (if messages s = [] then startTime s else timestamp (last (messages s))))"
proof -
  let ?sessions = "sort_key (\<lambda>s. - startTime s) (filter (\<lambda>s. userId s = owner) store)"
  have "getAllUserSessions env req store = json_status 200 (Summaries (map formatSession ?sessions))"
    using assms by (simp add: getAllUserSessions_def ChatSession_find_sorted_def)
  moreover have "mset ?sessions = mset (filter (\<lambda>s. userId s = owner) store)" by simp
  moreover have "sorted_wrt (\<ge>) (map createdAt (map formatSession ?sessions))"
    using sorted_desc [of "filter (\<lambda>s. userId s = owner) store"]
    by (simp add: comp_def formatSession_sel)
  moreover have "s_sessionId (formatSession s) = sessionId s" for s
    by (simp add: formatSession_def)
  ultimately show ?thesis
    by (intro exI [of _ ?sessions]) (simp add: formatSession_sel)
qed

text \<open>
  The hypotheses of C9 for account \<open>u1\<close> on a collection of three sessions, two of them its
  own: the later one comes first, with the time of its last turn.
\<close>

theorem getAllUserSessions_summaries_witness:
  "Types_ObjectId (demoChat None (Inr anxiousText)) (ru_id (asUser u1)) = Inr (u_id u1) \<and>
   filter (\<lambda>s. userId s = u_id u1) [s1, s2, s3] = [s1, s3] \<and>
   getAllUserSessions (demoChat None (Inr anxiousText)) (postAs u1) [s1, s2, s3] =
     json_status 200 (Summaries (map formatSession [s3, s1])) \<and>
   map updatedAt (map formatSession [s3, s1]) = [1699000000900, 1690000000000] \<and>
   (\<exists>sessions.
      getAllUserSessions (demoChat None (Inr anxiousText)) (postAs u1) [s1, s2, s3] =
        json_status 200 (Summaries (map formatSession sessions)) \<and>
      mset sessions = mset (filter (\<lambda>s. userId s = u_id u1) [s1, s2, s3]) \<and>
      sorted_wrt (\<ge>) (map createdAt (map formatSession sessions)))"
proof -
  define env where "env = demoChat None (Inr anxiousText)"
  have h1: "req_user (postAs u1) = Some (asUser u1)" by (simp add: postAs_def)
  have h2: "ru_id (asUser u1) \<noteq> []" by code_simp
  have h3: "Types_ObjectId env (ru_id (asUser u1)) = Inr (u_id u1)" unfolding env_def by code_simp
  have h4: "queryFault env = None" by (simp add: env_def demoChat_def)
  have f: "filter (\<lambda>s. userId s = u_id u1) [s1, s2, s3] = [s1, s3]" by code_simp
  have v: "getAllUserSessions env (postAs u1) [s1, s2, s3] =
             json_status 200 (Summaries (map formatSession [s3, s1]))"
    unfolding env_def by code_simp
  have t: "map updatedAt (map formatSession [s3, s1]) = [1699000000900, 1690000000000]"
    by code_simp
  from getAllUserSessions_summaries [OF h1 h2 h3 h4, of "[s1, s2, s3]"]
  obtain sessions where
    "getAllUserSessions env (postAs u1) [s1, s2, s3] =
        json_status 200 (Summaries (map formatSession sessions))"
    "mset sessions = mset (filter (\<lambda>s. userId s = u_id u1) [s1, s2, s3])"
    "sorted_wrt (\<ge>) (map createdAt (map formatSession sessions))"
    by (elim exE conjE)
  then have "\<exists>sessions.
      getAllUserSessions env (postAs u1) [s1, s2, s3] =
        json_status 200 (Summaries (map formatSession sessions)) \<and>
      mset sessions = mset (filter (\<lambda>s. userId s = u_id u1) [s1, s2, s3]) \<and>
      sorted_wrt (\<ge>) (map createdAt (map formatSession sessions))"
    by (intro exI [of _ sessions] conjI)
  with h3 f v t show ?thesis unfolding env_def by (intro conjI)
qed

section \<open>The scheme prefix of the header\<close>

text \<open>
  C10. The middleware takes as the token the header value with the first occurrence of
  \<open>Bearer \<close> removed, and nothing else: when no occurrence starts before a given one, that
  one is removed. A compact token contains no space, so as a header value it is its own
  token, and the middleware treats the bare token exactly as it treats the token behind
  the scheme prefix.
\<close>

theorem bearer_prefix_optional:
  "((\<forall>i<length pre. \<not> prefix ''Bearer '' (drop i (pre @ ''Bearer '' @ rest))) \<longrightarrow>
      tokenOf (Some (pre @ ''Bearer '' @ rest)) = Some (pre @ rest)) \<and>
   (list_all jwsChar tok \<longrightarrow>
      tokenOf (Some tok) = Some tok \<and>
      fst (auth env (Some tok)) = fst (auth env (Some (''Bearer '' @ tok))))"
proof (intro conjI impI)
  assume "\<forall>i<length pre. \<not> prefix ''Bearer '' (drop i (pre @ ''Bearer '' @ rest))"
  from replaceFirst_first [OF this, of "[]"]
  show "tokenOf (Some (pre @ ''Bearer '' @ rest)) = Some (pre @ rest)"
    by (simp add: tokenOf_def)
next
  assume j: "list_all jwsChar tok"
  then show "tokenOf (Some tok) = Some tok" by (rule tokenOf_bare)
  from j have "tokenOf (Some tok) = tokenOf (Some (''Bearer '' @ tok))"
    by (simp only: tokenOf_bare tokenOf_Bearer)
  then show "fst (auth env (Some tok)) = fst (auth env (Some (''Bearer '' @ tok)))"
    by (rule auth_token_only)
qed

text \<open>
  The hypotheses of C10 on a header with a second occurrence of the prefix, and on the token
  of account \<open>u1\<close>, which authenticates bare.
\<close>

theorem bearer_prefix_optional_witness:
  "length ''x'' = 1 \<and> \<not> prefix ''Bearer '' (drop 0 (''x'' @ ''Bearer '' @ ''Bearer abc'')) \<and>
   tokenOf (Some (''x'' @ ''Bearer '' @ ''Bearer abc'')) = Some (''x'' @ ''Bearer abc'') \<and>
   list_all jwsChar ''aaa.bbb.u1'' \<and>
   tokenOf (Some ''aaa.bbb.u1'') = Some ''aaa.bbb.u1'' \<and>
   fst (auth (demoAuth accounts) (Some ''aaa.bbb.u1'')) =
     fst (auth (demoAuth accounts) (Some (''Bearer '' @ ''aaa.bbb.u1''))) \<and>
   fst (auth (demoAuth accounts) (Some ''aaa.bbb.u1'')) = Inr (asUser u1)"
proof -
  have h1: "\<forall>i<length ''x''. \<not> prefix ''Bearer '' (drop i (''x'' @ ''Bearer '' @ ''Bearer abc''))"
    by simp
  have h2: "list_all jwsChar ''aaa.bbb.u1''" by code_simp
  have v: "fst (auth (demoAuth accounts) (Some ''aaa.bbb.u1'')) = Inr (asUser u1)" by code_simp
  note t = bearer_prefix_optional [of "''x''" "''Bearer abc''" "''aaa.bbb.u1''" "demoAuth accounts"]
  from t h1 have a: "tokenOf (Some (''x'' @ ''Bearer '' @ ''Bearer abc'')) = Some (''x'' @ ''Bearer abc'')"
    by (elim conjE) (erule mp, assumption)
  from t h2 have b: "tokenOf (Some ''aaa.bbb.u1'') = Some ''aaa.bbb.u1'' \<and>
      fst (auth (demoAuth accounts) (Some ''aaa.bbb.u1'')) =
        fst (auth (demoAuth accounts) (Some (''Bearer '' @ ''aaa.bbb.u1'')))"
    by (elim conjE) (erule mp, assumption)
  have h0: "length ''x'' = 1" "\<not> prefix ''Bearer '' (drop 0 (''x'' @ ''Bearer '' @ ''Bearer abc''))"
    by simp_all
  from h0 a h2 b v show ?thesis by (intro conjI) (elim conjE, assumption)+
qed

end
